theory Spec2Isabelle
  imports Complex_Main
begin

section \<open>Python values and errors\<close>

text \<open>
  The exceptions the modelled code can raise, as values. \<open>AssertionError\<close>,
  \<open>IndexError\<close>, \<open>TypeError\<close> and \<open>ZeroDivisionError\<close> are Python's own;
  \<open>NotFoundError\<close> and \<open>InvalidArgumentError\<close> are the errors of the tensor-dataset
  library; \<open>TokenizerError\<close> stands for whatever the external tokenizer raises.
\<close>

datatype error =
    AssertionError
  | IndexError
  | TypeError
  | ZeroDivisionError
  | NotFoundError
  | InvalidArgumentError
  | TokenizerError

text \<open>
  Python's \<open>xs * n\<close> on a list: \<open>n\<close> copies of \<open>xs\<close>, and the empty list when
  \<open>n\<close> is zero or negative.
\<close>

definition py_list_mul :: "'a list \<Rightarrow> int \<Rightarrow> 'a list" where
  "py_list_mul xs n = concat (replicate (nat n) xs)"

text \<open>
  Python's \<open>int(x)\<close> on a float truncates toward zero. The float operands of the split
  arithmetic are modelled as rationals and the float operations as exact.
\<close>

definition py_int :: "rat \<Rightarrow> int" where
  "py_int x = (if 0 \<le> x then \<lfloor>x\<rfloor> else \<lceil>x\<rceil>)"

section \<open>embedding/BERT\_EMBEDDING.py\<close>

text \<open>
  \<^verbatim>\<open>
  def get_masks(tokens, max_seq_length):
      if len(tokens)>max_seq_length:
          raise IndexError("Token length more than max seq length!")
      return [1]*len(tokens) + [0] * (max_seq_length - len(tokens))
  \<close>
\<close>

definition get_masks :: "'t list \<Rightarrow> int \<Rightarrow> error + int list" where
  "get_masks tokens max_seq_length =
     (if int (length tokens) > max_seq_length then Inl IndexError
      else Inr (py_list_mul [1] (int (length tokens))
                @ py_list_mul [0] (max_seq_length - int (length tokens))))"

text \<open>
  \<^verbatim>\<open>
  def get_ids(tokens, tokenizer, max_seq_length):
      token_ids = tokenizer.convert_tokens_to_ids(tokens)
      input_ids = token_ids + [0] * (max_seq_length-len(token_ids))
      return input_ids
  \<close>
  The tokenizer belongs to an external library; its vocabulary lookup
  \<open>convert_tokens_to_ids\<close> is a parameter. The function has no \<open>raise\<close> and no check
  of its own, so its result is always \<open>Inr\<close>.
\<close>

definition get_ids :: "'t list \<Rightarrow> ('t list \<Rightarrow> int list) \<Rightarrow> int \<Rightarrow> error + int list" where
  "get_ids tokens convert_tokens_to_ids max_seq_length =
     (let token_ids = convert_tokens_to_ids tokens;
          input_ids = token_ids @ py_list_mul [0] (max_seq_length - int (length token_ids))
      in Inr input_ids)"

section \<open>data/tweets\_data.py: the split arithmetic of TweetDataset.split\_dataset\<close>

text \<open>
  \<^verbatim>\<open>
  validation_split = int(validation_size*self.size/batch_size)
  test_split = int(test_size*self.size/batch_size)
  train_split = int(self.size/batch_size) - validation_split - test_split
  \<close>
  The result is \<open>(train_split, validation_split, test_split)\<close>; \<open>dsize\<close> is
  \<open>self.size\<close>. Dividing by a zero batch size raises \<open>ZeroDivisionError\<close>.
\<close>

definition split_counts :: "rat \<Rightarrow> rat \<Rightarrow> int \<Rightarrow> int \<Rightarrow> error + int \<times> int \<times> int" where
  "split_counts validation_size test_size dsize batch_size =
     (if batch_size = 0 then Inl ZeroDivisionError
      else
        let validation_split = py_int (validation_size * of_int dsize / of_int batch_size);
            test_split = py_int (test_size * of_int dsize / of_int batch_size);
            train_split = py_int (of_int dsize / of_int batch_size) - validation_split - test_split
        in Inr (train_split, validation_split, test_split))"

text \<open>The number of whole batches the configured size gives: \<open>int(self.size/batch_size)\<close>.\<close>

definition total_batches :: "int \<Rightarrow> int \<Rightarrow> int" where
  "total_batches dsize batch_size = py_int (of_int dsize / of_int batch_size)"

section \<open>The tensor-dataset library\<close>

text \<open>
  The datasets of the external tensor-dataset library are modelled by the sequence of
  elements one traversal yields. \<open>batch\<close>, \<open>take\<close>, \<open>skip\<close> and \<open>repeat\<close> follow the
  library's documented behaviour; \<open>shuffle\<close>, \<open>cache\<close> and \<open>prefetch\<close> do not change
  which elements a traversal yields and are left out (the shuffled order is the order
  of the given sequence).

  \<open>chunks n drop_remainder xs\<close> groups \<open>xs\<close> into consecutive batches of \<open>n\<close> elements;
  a shorter last batch is dropped when \<open>drop_remainder\<close> is set and kept otherwise.
\<close>

function chunks :: "nat \<Rightarrow> bool \<Rightarrow> 'a list \<Rightarrow> 'a list list" where
  "chunks n drop_remainder xs =
     (if n = 0 \<or> xs = [] then []
      else if length xs < n then (if drop_remainder then [] else [xs])
      else take n xs # chunks n drop_remainder (drop n xs))"
  by pat_completeness auto
termination
  by (relation "measure (\<lambda>(n, d, xs). length xs)") auto

declare chunks.simps [simp del]

text \<open>\<open>dataset.batch(batch_size, drop_remainder)\<close>: the library rejects a batch size below 1.\<close>

definition ds_batch :: "int \<Rightarrow> bool \<Rightarrow> 'a list \<Rightarrow> error + 'a list list" where
  "ds_batch batch_size drop_remainder xs =
     (if batch_size \<le> 0 then Inl InvalidArgumentError
      else Inr (chunks (nat batch_size) drop_remainder xs))"

text \<open>
  \<open>dataset.take(count)\<close> and \<open>dataset.skip(count)\<close>: a negative count takes, respectively
  skips, every element.
\<close>

definition ds_take :: "int \<Rightarrow> 'a list \<Rightarrow> 'a list" where
  "ds_take count xs = (if count < 0 then xs else take (nat count) xs)"

definition ds_skip :: "int \<Rightarrow> 'a list \<Rightarrow> 'a list" where
  "ds_skip count xs = (if count < 0 then [] else drop (nat count) xs)"

text \<open>
  A dataset is traversed once to its end (\<open>Finite\<close>), or, after \<open>repeat()\<close>, restarts from
  its first element whenever a pass is exhausted (\<open>Forever\<close>). \<open>pull n d\<close> is what a
  consumer that asks \<open>d\<close> for \<open>n\<close> elements receives.
\<close>

datatype 'a dataset = Finite "'a list" | Forever "'a list"

definition ds_repeat :: "'a list \<Rightarrow> 'a dataset" where
  "ds_repeat xs = Forever xs"

fun pull :: "nat \<Rightarrow> 'a dataset \<Rightarrow> 'a list" where
  "pull n (Finite xs) = take n xs"
| "pull n (Forever xs) = take n (concat (replicate n xs))"

section \<open>data/tweets\_data.py: TweetDataset.split\_dataset\<close>

text \<open>
  A split of \<open>TweetDataset\<close> is the carved block of batches, or, with \<open>do_padding\<close>, what
  the library's \<open>padded_batch(batch_size, padded_shapes=([max_len], [1]))\<close> makes of that
  block; the padded re-batching is a parameter, \<open>padded_batch\<close>, and its result is opaque.
\<close>

datatype ('a, 'p) split = Unpadded "'a list dataset" | Padded 'p

record ('a, 'p) split_state =
  td_train :: "('a, 'p) split"
  td_validate :: "('a, 'p) split"
  td_test :: "('a, 'p) split"
  steps_per_epoch :: int
  valid_steps_per_epoch :: int

text \<open>
  \<^verbatim>\<open>
  def split_dataset(self, batch_size, validation_size, test_size, max_len):
      self.dataset = self.dataset.batch(batch_size)
      validation_split = int(validation_size*self.size/batch_size)
      test_split = int(test_size*self.size/batch_size)
      train_split = int(self.size/batch_size) - validation_split - test_split
      self.steps_per_epoch = train_split
      train_data = self.dataset.skip(validation_split + test_split)
      if self.do_padding: train_data = train_data.padded_batch(batch_size, padded_shapes=([max_len], [1]))
      validation_data = self.dataset.take(validation_split)
      self.valid_steps_per_epoch = validation_split
      if self.do_padding: validation_data = validation_data.padded_batch(...)
      test_data = self.dataset.skip(validation_split).take(test_split)
      if self.do_padding: test_data = test_data.padded_batch(...)
      return train_data.prefetch(self.buffer_size), \
             validation_data.prefetch(self.buffer_size), \
             test_data.prefetch(self.buffer_size)
  \<close>
  \<open>self_size\<close>, \<open>self_do_padding\<close> and \<open>self_dataset\<close> are the fields of \<open>self\<close> the
  method reads. There is no \<open>repeat()\<close> and no \<open>drop_remainder\<close> in this class.
\<close>

definition split_dataset ::
  "(int \<Rightarrow> int \<Rightarrow> 'a list list \<Rightarrow> 'p) \<Rightarrow> int \<Rightarrow> bool \<Rightarrow> 'a list
     \<Rightarrow> int \<Rightarrow> rat \<Rightarrow> rat \<Rightarrow> int \<Rightarrow> error + ('a, 'p) split_state" where
  "split_dataset padded_batch self_size self_do_padding self_dataset
       batch_size validation_size test_size max_len =
     (case ds_batch batch_size False self_dataset of
        Inl e \<Rightarrow> Inl e
      | Inr batched \<Rightarrow>
          (case split_counts validation_size test_size self_size batch_size of
             Inl e \<Rightarrow> Inl e
           | Inr (train_split, validation_split, test_split) \<Rightarrow>
               let finish = (\<lambda>d. if self_do_padding then Padded (padded_batch batch_size max_len d)
                                  else Unpadded (Finite d));
                   train_data = ds_skip (validation_split + test_split) batched;
                   validation_data = ds_take validation_split batched;
                   test_data = ds_take test_split (ds_skip validation_split batched)
               in Inr \<lparr> td_train = finish train_data,
                        td_validate = finish validation_data,
                        td_test = finish test_data,
                        steps_per_epoch = train_split,
                        valid_steps_per_epoch = validation_split \<rparr>))"

section \<open>data/tweets\_data.py: TweetDatasetGenerator\<close>

text \<open>
  \<^verbatim>\<open>
  @staticmethod
  def batch_and_prepare(dataset,is_training,batch_size):
      dataset = dataset.batch(batch_size, drop_remainder=is_training)
      dataset = dataset.repeat()
      return dataset
  \<close>
\<close>

definition batch_and_prepare :: "'a list \<Rightarrow> bool \<Rightarrow> int \<Rightarrow> error + 'a list dataset" where
  "batch_and_prepare dataset is_training batch_size =
     (case ds_batch batch_size is_training dataset of
        Inl e \<Rightarrow> Inl e
      | Inr batched \<Rightarrow> Inr (ds_repeat batched))"

text \<open>
  \<^verbatim>\<open>
  def split_data(self, x, y, train_p, valid_p, test_p, batch_size):
      train_size = int(self.size*train_p)
      valid_size = int(self.size*valid_p)
      test_size = int(self.size*test_p)
      self.train_size, self.valid_size, self.test_size = train_size//batch_size, \
                                                         valid_size//batch_size, \
                                                         test_size//batch_size
      dataset = tf.data.Dataset.zip((x,y))
      train = dataset.take(train_size)
      valid = dataset.skip(train_size).take(valid_size)
      test = dataset.skip(train_size+valid_size).take(test_size)
      return train,valid,test
  \<close>
  The result is \<open>(train, valid, test)\<close>; the three step counts stored on \<open>self\<close> only
  matter here through the \<open>ZeroDivisionError\<close> of \<open>//\<close>.
\<close>

definition split_data ::
  "int \<Rightarrow> 'x list \<Rightarrow> 'y list \<Rightarrow> rat \<Rightarrow> rat \<Rightarrow> rat \<Rightarrow> int
     \<Rightarrow> error + ('x \<times> 'y) list \<times> ('x \<times> 'y) list \<times> ('x \<times> 'y) list" where
  "split_data self_size x y train_p valid_p test_p batch_size =
     (let train_size = py_int (of_int self_size * train_p);
          valid_size = py_int (of_int self_size * valid_p);
          test_size = py_int (of_int self_size * test_p)
      in if batch_size = 0 then Inl ZeroDivisionError
         else
           let dataset = zip x y;
               train = ds_take train_size dataset;
               valid = ds_take valid_size (ds_skip train_size dataset);
               test = ds_take test_size (ds_skip (train_size + valid_size) dataset)
           in Inr (train, valid, test))"

text \<open>
  The end of \<open>TweetDatasetGenerator.__init__\<close>, from the preprocessed \<open>x\<close> and \<open>y\<close>:
  \<^verbatim>\<open>
  train, val, test = \
      self.split_data(x,y,train_p,valid_p,test_p, batch_size)
  self.train = self.batch_and_prepare(train, is_training=True, batch_size=batch_size)
  self.valid= self.batch_and_prepare(val, is_training=False, batch_size=batch_size)
  self.test = self.batch_and_prepare(test, is_training=False, batch_size=batch_size)
  \<close>
\<close>

record ('x, 'y) generator_state =
  gen_train :: "('x \<times> 'y) list dataset"
  gen_valid :: "('x \<times> 'y) list dataset"
  gen_test :: "('x \<times> 'y) list dataset"

definition generator_init_splits ::
  "int \<Rightarrow> 'x list \<Rightarrow> 'y list \<Rightarrow> rat \<Rightarrow> rat \<Rightarrow> rat \<Rightarrow> int
     \<Rightarrow> error + ('x, 'y) generator_state" where
  "generator_init_splits self_size x y train_p valid_p test_p batch_size =
     (case split_data self_size x y train_p valid_p test_p batch_size of
        Inl e \<Rightarrow> Inl e
      | Inr (train, val, test) \<Rightarrow>
          (case batch_and_prepare train True batch_size of
             Inl e \<Rightarrow> Inl e
           | Inr self_train \<Rightarrow>
               (case batch_and_prepare val False batch_size of
                  Inl e \<Rightarrow> Inl e
                | Inr self_valid \<Rightarrow>
                    (case batch_and_prepare test False batch_size of
                       Inl e \<Rightarrow> Inl e
                     | Inr self_test \<Rightarrow>
                         Inr \<lparr> gen_train = self_train, gen_valid = self_valid,
                                gen_test = self_test \<rparr>))))"

section \<open>data/tweets\_data.py: the embedder adapters\<close>

text \<open>
  The tokenizer is an external capability. \<open>encode_plus text max_length\<close> stands for
  \<^verbatim>\<open>
  self.tokenizer.encode_plus(text, max_length=max_length, return_tensors='tf',
      add_special_tokens=True, return_token_type_ids=False,
      pad_to_max_length=True, return_attention_mask=True)
  \<close>
  and gives the pair \<open>(input_ids, attention_mask)\<close> or raises. \<open>py_str\<close> is Python's
  \<open>str()\<close> on the record handed to the adapter.
\<close>

type_synonym encoder = "string \<Rightarrow> int \<Rightarrow> error + int list \<times> int list"

text \<open>
  The contract the specification gives the external tokenizer: what it returns is padded
  or truncated to exactly the maximum length it was asked for.
\<close>

definition pads_to_max_length :: "encoder \<Rightarrow> bool" where
  "pads_to_max_length encode_plus =
     (\<forall>text max_length input_ids attention_mask.
        encode_plus text max_length = Inr (input_ids, attention_mask) \<longrightarrow>
          int (length input_ids) = max_length \<and> int (length attention_mask) = max_length)"

text \<open>
  \<^verbatim>\<open>
  class TweetDataset():
      def __init__(self, input_files, labels=None, batch_size=12, buffer_size=1000,
                   vocabulary=None, max_len=100, ...):
      ...
      def get_bert_encoding(self, sentence):
          encoded_input = self.tokenizer.encode_plus(str(sentence),
                                                     max_length=50, ...)
          return encoded_input["input_ids"], encoded_input["attention_mask"]
  \<close>
  \<open>max_len\<close> is the constructor's parameter; the method does not read it.
\<close>

definition TweetDataset_get_bert_encoding ::
  "int \<Rightarrow> encoder \<Rightarrow> ('s \<Rightarrow> string) \<Rightarrow> 's \<Rightarrow> error + int list \<times> int list" where
  "TweetDataset_get_bert_encoding max_len encode_plus py_str sentence =
     encode_plus (py_str sentence) 50"

text \<open>
  \<^verbatim>\<open>
  class TweetDatasetGenerator():
      def get_bert_encoding(self, sentence):
          encoded_input = self.tokenizer.encode_plus(str(sentence),
                                                     max_length=self.max_len, ...)
          return encoded_input["input_ids"], encoded_input["attention_mask"]
  \<close>
\<close>

definition TweetDatasetGenerator_get_bert_encoding ::
  "int \<Rightarrow> encoder \<Rightarrow> ('s \<Rightarrow> string) \<Rightarrow> 's \<Rightarrow> error + int list \<times> int list" where
  "TweetDatasetGenerator_get_bert_encoding self_max_len encode_plus py_str sentence =
     encode_plus (py_str sentence) self_max_len"

section \<open>data/tweets\_data.py: loading the files\<close>

text \<open>
  The datasets of the tensor-dataset library are lazy: building one reads nothing, and a
  file is opened only when the dataset is traversed. A dataset that is still to be
  traversed is a function from the file system (path to lines, \<open>None\<close> for a missing
  file) to the outcome of one full traversal: the elements, or the first error met.
\<close>

type_synonym file_system = "string \<Rightarrow> string list option"

type_synonym 'a lazy = "file_system \<Rightarrow> error + 'a list"

definition TextLineDataset :: "string \<Rightarrow> string lazy" where
  "TextLineDataset path = (\<lambda>fs. case fs path of None \<Rightarrow> Inl NotFoundError | Some ls \<Rightarrow> Inr ls)"

text \<open>\<open>take(0)\<close> yields nothing and never opens its input.\<close>

definition lz_take :: "int \<Rightarrow> 'a lazy \<Rightarrow> 'a lazy" where
  "lz_take count d =
     (\<lambda>fs. if count = 0 then Inr []
           else case d fs of Inl e \<Rightarrow> Inl e | Inr xs \<Rightarrow> Inr (ds_take count xs))"

text \<open>Mapping a function that may raise over the elements: the first error ends the traversal.\<close>

fun map_raising :: "('a \<Rightarrow> error + 'b) \<Rightarrow> 'a list \<Rightarrow> error + 'b list" where
  "map_raising f [] = Inr []"
| "map_raising f (x # xs) =
     (case f x of
        Inl e \<Rightarrow> Inl e
      | Inr y \<Rightarrow> (case map_raising f xs of Inl e \<Rightarrow> Inl e | Inr ys \<Rightarrow> Inr (y # ys)))"

definition lz_map :: "('a \<Rightarrow> error + 'b) \<Rightarrow> 'a lazy \<Rightarrow> 'b lazy" where
  "lz_map f d = (\<lambda>fs. case d fs of Inl e \<Rightarrow> Inl e | Inr xs \<Rightarrow> map_raising f xs)"

definition lz_concatenate :: "'a lazy \<Rightarrow> 'a lazy \<Rightarrow> 'a lazy" where
  "lz_concatenate d1 d2 =
     (\<lambda>fs. case d1 fs of
             Inl e \<Rightarrow> Inl e
           | Inr xs \<Rightarrow> (case d2 fs of Inl e \<Rightarrow> Inl e | Inr ys \<Rightarrow> Inr (xs @ ys)))"

text \<open>
  \<open>shuffle(buffer_size)\<close>: the library rejects a buffer size below 1 when the dataset is
  built; the order a traversal yields is the parameter \<open>permute\<close>.
\<close>

definition lz_shuffle :: "('a list \<Rightarrow> 'a list) \<Rightarrow> int \<Rightarrow> 'a lazy \<Rightarrow> error + 'a lazy" where
  "lz_shuffle permute buffer_size d =
     (if buffer_size \<le> 0 then Inl InvalidArgumentError
      else Inr (\<lambda>fs. case d fs of Inl e \<Rightarrow> Inl e | Inr xs \<Rightarrow> Inr (permute xs)))"

text \<open>\<open>os.path.join(abs_path, f)\<close> on POSIX paths.\<close>

definition os_path_join :: "string \<Rightarrow> string \<Rightarrow> string" where
  "os_path_join a f =
     (if f \<noteq> [] \<and> hd f = CHR ''/'' then f
      else if a = [] \<or> last a = CHR ''/'' then a @ f
      else a @ ''/'' @ f)"

text \<open>\<open>tf.one_hot(index, depth)\<close>: all zeros when the index is out of range.\<close>

definition one_hot :: "int \<Rightarrow> nat \<Rightarrow> int list" where
  "one_hot index depth = map (\<lambda>i. if int i = index then 1 else 0) [0..<depth]"

text \<open>
  A record is a raw text line or the encoded pair of token ids and mask; an element of the
  loaded dataset is a record with its one-hot label, if labels were given.
\<close>

datatype features = Line string | Encoded "int list" "int list"

type_synonym element = "features \<times> int list option"

text \<open>Python's truth value of \<open>labels\<close>: \<open>None\<close> and the empty list are false.\<close>

definition truthy :: "'a list option \<Rightarrow> bool" where
  "truthy labels = (case labels of None \<Rightarrow> False | Some ls \<Rightarrow> ls \<noteq> [])"

text \<open>
  \<^verbatim>\<open>
  def load_dataset(self, labels, bert=True):
      abs_path = os.path.abspath(os.path.dirname(__file__))
      paths = [os.path.join(abs_path, f) for f in self.input_files]
      datasets = []
      for path in paths:
          datasets.append(tf.data.TextLineDataset(path).take(self.size//len(paths)))
      if bert:
          self.tokenizer = AutoTokenizer.from_pretrained('bert-base-cased')
          self.trans_model = TFBertModel.from_pretrained('bert-base-cased')
          ...
          for i in range(len(datasets)):
             datasets[i] = datasets[i].map(tf_encode)
      if labels:
          assert len(labels) == len(self.input_files)
          for i in range(len(datasets)):
              if bert: datasets[i] = datasets[i].map(lambda ids,mask: ((ids,mask),tf.one_hot(labels[i], 2)))
              else: datasets[i] = datasets[i].map(lambda line: (line,tf.one_hot(labels[i], 2)))
      dataset_final = datasets[0]
      for i in range(len(datasets)-1):
          dataset_final = dataset_final.concatenate(datasets[i+1])
      if not labels: dataset_final = dataset_final.map(lambda line: (line))
      return dataset_final.shuffle(buffer_size=self.size)
  \<close>
  \<open>from_pretrained\<close> is the outcome of the two \<open>from_pretrained\<close> calls: the tokenizer's
  \<open>encode_plus\<close>, or the error of the fetch. \<open>max_len\<close> is the constructor's parameter.
  The result is the dataset, still to be traversed, or the error raised while building it.
\<close>

definition load_dataset ::
  "string \<Rightarrow> error + encoder \<Rightarrow> (string \<Rightarrow> string) \<Rightarrow> (element list \<Rightarrow> element list)
     \<Rightarrow> int \<Rightarrow> string list \<Rightarrow> int \<Rightarrow> int list option \<Rightarrow> bool \<Rightarrow> error + element lazy" where
  "load_dataset abs_path from_pretrained py_str permute max_len
       self_input_files self_size labels bert =
     (let paths = map (os_path_join abs_path) self_input_files;
          datasets = map (\<lambda>path. lz_take (self_size div int (length paths)) (TextLineDataset path))
                         paths
      in case (if bert then from_pretrained else Inr (\<lambda>text max_length. Inl TokenizerError)) of
           Inl e \<Rightarrow> Inl e
         | Inr encode_plus \<Rightarrow>
             let tf_encode = (\<lambda>sentence.
                    case TweetDataset_get_bert_encoding max_len encode_plus py_str sentence of
                      Inl e \<Rightarrow> Inl e
                    | Inr (input_ids, attention_mask) \<Rightarrow>
                        Inr (Encoded input_ids attention_mask));
                 encoded = map (lz_map (if bert then tf_encode else (\<lambda>line. Inr (Line line))))
                               datasets
             in if truthy labels \<and> length (the labels) \<noteq> length self_input_files
                then Inl AssertionError
                else
                  let labelled = map (\<lambda>(i, d).
                         lz_map (\<lambda>x. Inr (x, if truthy labels
                                              then Some (one_hot (the labels ! i) 2)
                                              else None)) d)
                         (enumerate 0 encoded)
                  in if labelled = [] then Inl IndexError
                     else lz_shuffle permute self_size
                            (foldl lz_concatenate (hd labelled) (tl labelled)))"

text \<open>
  \<^verbatim>\<open>
  def load_data_from_files(self,files,labels):
      abs_path = os.path.abspath(os.path.dirname(__file__))
      paths = [os.path.join(abs_path, f) for f in files]
      datasets = []
      dataset_labels = []
      length = self.size//len(paths)
      for i,path in enumerate(paths):
          datasets.append(tf.data.TextLineDataset(path))
          dataset_labels.append(tf.data.Dataset.from_tensor_slices([labels[i]]*length))
      dataset_final = datasets[0]
      dataset_final_labels = dataset_labels[0]
      for i in range(len(datasets) - 1):
          dataset_final = dataset_final.concatenate(datasets[i + 1])
          dataset_final_labels = dataset_final_labels.concatenate(dataset_labels[i + 1])
      dataset_final = dataset_final.shuffle(buffer_size=length, seed=0).cache(...)
      dataset_final_labels = dataset_final_labels.shuffle(buffer_size=length, seed=0).cache(...)
      return dataset_final, dataset_final_labels
  \<close>
  There is no comparison of \<open>len(labels)\<close> with \<open>len(files)\<close>; \<open>labels[i]\<close> raises
  \<open>TypeError\<close> when \<open>labels\<close> is \<open>None\<close> and \<open>IndexError\<close> when \<open>i\<close> is past its end.
  The label dataset is built from Python lists and reads no file.
\<close>

definition load_data_from_files ::
  "string \<Rightarrow> (string list \<Rightarrow> string list) \<Rightarrow> (int list \<Rightarrow> int list)
     \<Rightarrow> int \<Rightarrow> string list \<Rightarrow> int list option \<Rightarrow> error + string lazy \<times> int list" where
  "load_data_from_files abs_path permute_x permute_y self_size files labels =
     (let paths = map (os_path_join abs_path) files
      in if paths = [] then Inl ZeroDivisionError
         else
           let len = self_size div int (length paths)
           in case labels of
                None \<Rightarrow> Inl TypeError
              | Some ls \<Rightarrow>
                  if length ls < length paths then Inl IndexError
                  else
                    let datasets = map TextLineDataset paths;
                        dataset_labels = map (\<lambda>i. py_list_mul [ls ! i] len) [0..<length paths];
                        dataset_final = foldl lz_concatenate (hd datasets) (tl datasets);
                        dataset_final_labels = foldl (@) (hd dataset_labels) (tl dataset_labels)
                    in case lz_shuffle permute_x len dataset_final of
                         Inl e \<Rightarrow> Inl e
                       | Inr x \<Rightarrow> Inr (x, permute_y dataset_final_labels))"

section \<open>Helper facts\<close>

lemma length_py_list_mul_single: "length (py_list_mul [x] n) = nat n"
  by (simp add: py_list_mul_def)

lemma py_list_mul_single: "py_list_mul [x] n = replicate (nat n) x"
  by (induction "nat n" arbitrary: n) (simp_all add: py_list_mul_def)

lemma py_int_nonneg: "0 \<le> x \<Longrightarrow> py_int x = \<lfloor>x\<rfloor>"
  by (simp add: py_int_def)

lemma py_int_nonneg_ge0: "0 \<le> x \<Longrightarrow> 0 \<le> py_int x"
  by (simp add: py_int_def)

lemma ratio_nonneg:
  fixes f :: rat
  assumes "0 \<le> f" "0 \<le> (dsize :: int)" "0 < (batch_size :: int)"
  shows "0 \<le> f * of_int dsize / of_int batch_size"
  using assms by simp

lemma concat_chunks_keep: "0 < n \<Longrightarrow> concat (chunks n False xs) = xs"
proof (induction n "False" xs rule: chunks.induct)
  case (1 n xs)
  then show ?case
    by (subst chunks.simps) auto
qed

lemma chunks_drop_length: "b \<in> set (chunks n True xs) \<Longrightarrow> length b = n"
proof (induction n "True" xs rule: chunks.induct)
  case (1 n xs)
  show ?case
  proof (cases "n = 0 \<or> xs = [] \<or> length xs < n")
    case True
    with "1.prems" show ?thesis
      by (subst (asm) chunks.simps) (auto split: if_splits)
  next
    case False
    then have unfold: "chunks n True xs = take n xs # chunks n True (drop n xs)"
      by (subst chunks.simps) auto
    from "1.prems" unfold
    have "b = take n xs \<or> b \<in> set (chunks n True (drop n xs))" by auto
    then show ?thesis using False "1.hyps" by auto
  qed
qed

lemma chunks_keep_length: "b \<in> set (chunks n False xs) \<Longrightarrow> 0 < length b \<and> length b \<le> n"
proof (induction n "False" xs rule: chunks.induct)
  case (1 n xs)
  show ?case
  proof (cases "n = 0 \<or> xs = [] \<or> length xs < n")
    case True
    with "1.prems" show ?thesis
      by (subst (asm) chunks.simps) (auto split: if_splits)
  next
    case False
    then have unfold: "chunks n False xs = take n xs # chunks n False (drop n xs)"
      by (subst chunks.simps) auto
    from "1.prems" unfold
    have "b = take n xs \<or> b \<in> set (chunks n False (drop n xs))" by auto
    then show ?thesis using False "1.hyps" by auto
  qed
qed

lemma concat_chunks_drop:
  "0 < n \<Longrightarrow> concat (chunks n True xs) = take (length xs - length xs mod n) xs"
proof (induction n "True" xs rule: chunks.induct)
  case (1 n xs)
  show ?case
  proof (cases "xs = [] \<or> length xs < n")
    case True
    then show ?thesis using "1.prems" by (subst chunks.simps) auto
  next
    case False
    then have ge: "n \<le> length xs" and ne: "xs \<noteq> []" by auto
    have ih: "concat (chunks n True (drop n xs)) =
              take (length (drop n xs) - length (drop n xs) mod n) (drop n xs)"
      using "1.hyps" "1.prems" False by auto
    have m: "(length xs - n) mod n = length xs mod n"
      using ge by (simp add: le_mod_geq)
    have "concat (chunks n True xs) = take n xs @ concat (chunks n True (drop n xs))"
      using False "1.prems" by (subst chunks.simps) auto
    also have "\<dots> = take n xs @ take (length xs - n - length xs mod n) (drop n xs)"
      by (simp add: ih m)
    also have "\<dots> = take (n + (length xs - n - length xs mod n)) xs"
      by (simp add: take_add)
    also have "n + (length xs - n - length xs mod n) = length xs - length xs mod n"
    proof -
      have "length xs mod n \<le> length xs - n"
        using m by (metis mod_less_eq_dividend)
      then show ?thesis using ge by simp
    qed
    finally show ?thesis .
  qed
qed

lemma nth_concat_replicate:
  "k < n * length xs \<Longrightarrow> concat (replicate n xs) ! k = xs ! (k mod length xs)"
proof (induction n arbitrary: k)
  case 0
  then show ?case by simp
next
  case (Suc n)
  show ?case
  proof (cases "k < length xs")
    case True
    then show ?thesis by (simp add: nth_append)
  next
    case False
    then have "k - length xs < n * length xs" using Suc.prems by simp
    then have "concat (replicate n xs) ! (k - length xs) = xs ! ((k - length xs) mod length xs)"
      by (rule Suc.IH)
    moreover have "(k - length xs) mod length xs = k mod length xs"
      using False by (simp add: le_mod_geq)
    ultimately show ?thesis using False by (simp add: nth_append)
  qed
qed

lemma length_pull_Forever: "xs \<noteq> [] \<Longrightarrow> length (pull n (Forever xs)) = n"
proof -
  assume "xs \<noteq> []"
  then have "1 \<le> length xs" by (cases xs) auto
  then have "n * 1 \<le> n * length xs" by (rule mult_le_mono2)
  then show ?thesis by (simp add: length_concat sum_list_replicate)
qed

lemma nth_pull_Forever:
  assumes "xs \<noteq> []" "k < n"
  shows "pull n (Forever xs) ! k = xs ! (k mod length xs)"
proof -
  from assms(1) have "n \<le> n * length xs" by (cases xs) auto
  with assms(2) have "k < n * length xs" by (rule less_le_trans)
  then show ?thesis using assms(2) by (simp add: nth_concat_replicate)
qed

lemma length_pull_Finite: "length (pull n (Finite xs)) = min n (length xs)"
  by (simp add: min.commute)

lemma carve_partition: "take v B @ take t (drop v B) @ drop (v + t) B = B"
  by (metis append_take_drop_id append.assoc take_add)

lemma chunks_keep_nonempty: "0 < n \<Longrightarrow> xs \<noteq> [] \<Longrightarrow> chunks n False xs \<noteq> []"
  by (subst chunks.simps) auto

lemma ds_batch_pos:
  "0 < batch_size \<Longrightarrow> ds_batch batch_size d xs = Inr (chunks (nat batch_size) d xs)"
  by (simp add: ds_batch_def)

lemma batch_and_prepare_pos:
  "0 < batch_size \<Longrightarrow>
     batch_and_prepare ds is_training batch_size
       = Inr (Forever (chunks (nat batch_size) is_training ds))"
  by (simp add: batch_and_prepare_def ds_batch_pos ds_repeat_def)

lemma split_dataset_pos:
  assumes "0 < batch_size"
  shows "split_dataset pb self_size do_padding ds batch_size validation_size test_size max_len =
     (let B = chunks (nat batch_size) False ds;
          V = py_int (validation_size * of_int self_size / of_int batch_size);
          T = py_int (test_size * of_int self_size / of_int batch_size);
          finish = (\<lambda>d. if do_padding then Padded (pb batch_size max_len d)
                         else Unpadded (Finite d))
      in Inr \<lparr> td_train = finish (ds_skip (V + T) B),
               td_validate = finish (ds_take V B),
               td_test = finish (ds_take T (ds_skip V B)),
               steps_per_epoch = py_int (of_int self_size / of_int batch_size) - V - T,
               valid_steps_per_epoch = V \<rparr>)"
  using assms by (simp add: split_dataset_def ds_batch_pos split_counts_def Let_def)

section \<open>Claims\<close>

text \<open>
  C10. The id builder \<open>get_ids\<close> never raises. When the tokenizer gives at most
  \<open>max_seq_length\<close> ids, the result is those ids followed by zeros, exactly
  \<open>max_seq_length\<close> long. When it gives more, the result is all the ids, untruncated and
  longer than \<open>max_seq_length\<close>. \<open>get_masks\<close> raises \<open>IndexError\<close> on a token list
  longer than \<open>max_seq_length\<close>.
\<close>

theorem get_ids_never_raises_get_masks_does:
  "(\<exists>ids. get_ids ts conv m = Inr ids)
   \<and> (int (length (conv ts)) \<le> m \<longrightarrow>
        get_ids ts conv m = Inr (conv ts @ replicate (nat m - length (conv ts)) 0)
        \<and> (\<forall>ids. get_ids ts conv m = Inr ids \<longrightarrow> int (length ids) = m))
   \<and> (m < int (length (conv ts)) \<longrightarrow>
        get_ids ts conv m = Inr (conv ts)
        \<and> (\<forall>ids. get_ids ts conv m = Inr ids \<longrightarrow> m < int (length ids)))
   \<and> (m < int (length ts) \<longrightarrow> get_masks ts m = Inl IndexError)"
proof -
  have eq: "get_ids ts conv m = Inr (conv ts @ replicate (nat (m - int (length (conv ts)))) 0)"
    by (simp add: get_ids_def Let_def py_list_mul_single)
  have short: "int (length (conv ts)) \<le> m \<Longrightarrow> nat (m - int (length (conv ts))) = nat m - length (conv ts)"
    by linarith
  have long: "m < int (length (conv ts)) \<Longrightarrow> nat (m - int (length (conv ts))) = 0"
    by simp
  show ?thesis
    using short long by (auto simp: eq get_masks_def)
qed

theorem get_ids_never_raises_get_masks_does_witness:
  "get_ids [''[CLS]'', ''hi'', ''[SEP]''] (map (\<lambda>t. 7)) 5 = Inr [7, 7, 7, 0, 0]
   \<and> get_ids [''[CLS]'', ''hi'', ''[SEP]''] (map (\<lambda>t. 7)) 2 = Inr [7, 7, 7]
   \<and> get_masks [''[CLS]'', ''hi'', ''[SEP]''] 2 = Inl IndexError"
  using get_ids_never_raises_get_masks_does
          [of "[''[CLS]'', ''hi'', ''[SEP]'']" "map (\<lambda>t. 7)" 5]
        get_ids_never_raises_get_masks_does
          [of "[''[CLS]'', ''hi'', ''[SEP]'']" "map (\<lambda>t. 7)" 2]
  by (simp add: numeral_eq_Suc)

text \<open>
  C1 as stated fails: the code has no guard on the counts. With validation and test
  fractions of 0.75 each, size 100 and batch size 10 the training count is \<open>-4\<close>.
\<close>

theorem split_counts_train_negative:
  "split_counts (3/4) (3/4) 100 10 = Inr (- 4, 7, 7)"
  by code_simp

text \<open>
  C1, amended. For every non-zero batch size the three counts add up to exactly
  \<open>int(size / batch_size)\<close>, the total number of batches. With non-negative fractions
  and size and a positive batch size the validation and test counts are non-negative,
  and the training count is non-negative when the two fractions sum to at most 1.
\<close>

theorem split_counts_sum_and_signs:
  assumes "bs \<noteq> 0"
  shows "\<exists>tr va te. split_counts vs ts dsize bs = Inr (tr, va, te)
           \<and> tr + va + te = total_batches dsize bs
           \<and> (0 \<le> vs \<and> 0 \<le> ts \<and> 0 \<le> dsize \<and> 0 < bs \<longrightarrow>
                0 \<le> va \<and> 0 \<le> te \<and> (vs + ts \<le> 1 \<longrightarrow> 0 \<le> tr))"
proof -
  define a where "a = vs * of_int dsize / of_int bs"
  define c where "c = ts * of_int dsize / of_int bs"
  define n where "n = (of_int dsize :: rat) / of_int bs"
  have eq: "split_counts vs ts dsize bs = Inr (py_int n - py_int a - py_int c, py_int a, py_int c)"
    using assms by (simp add: split_counts_def Let_def a_def c_def n_def)
  have sum: "(py_int n - py_int a - py_int c) + py_int a + py_int c = total_batches dsize bs"
    by (simp add: total_batches_def n_def)
  have signs: "0 \<le> py_int a \<and> 0 \<le> py_int c \<and> (vs + ts \<le> 1 \<longrightarrow> 0 \<le> py_int n - py_int a - py_int c)"
    if h: "0 \<le> vs \<and> 0 \<le> ts \<and> 0 \<le> dsize \<and> 0 < bs"
  proof -
    have a0: "0 \<le> a" and c0: "0 \<le> c" and n0: "0 \<le> n"
      using h by (simp_all add: a_def c_def n_def)
    have "py_int a + py_int c \<le> py_int n" if le: "vs + ts \<le> 1"
    proof -
      have "a + c = (vs + ts) * n"
        by (simp add: a_def c_def n_def distrib_right add_divide_distrib)
      also have "\<dots> \<le> 1 * n"
        using le n0 by (intro mult_right_mono)
      finally have "a + c \<le> n" by simp
      then have "\<lfloor>a + c\<rfloor> \<le> \<lfloor>n\<rfloor>" by (rule floor_mono)
      moreover have "\<lfloor>a\<rfloor> + \<lfloor>c\<rfloor> \<le> \<lfloor>a + c\<rfloor>" by (rule le_floor_add)
      ultimately show ?thesis
        using a0 c0 n0 by (simp add: py_int_nonneg)
    qed
    then show ?thesis
      using a0 c0 by (auto simp: py_int_nonneg_ge0)
  qed
  show ?thesis
    using eq sum signs by blast
qed

theorem split_counts_sum_and_signs_witness:
  "split_counts (1/4) (1/4) 100 8 = Inr (6, 3, 3) \<and> (6::int) + 3 + 3 = total_batches 100 8"
proof -
  have ev: "split_counts (1/4) (1/4) 100 8 = Inr (6, 3, 3)"
    by code_simp
  show ?thesis
    using split_counts_sum_and_signs [of 8 "1/4" "1/4" 100] by (simp add: ev)
qed





text \<open>
  C6 as stated fails for the training split of the batch-count pipeline: five records in
  batches of two give the training split \<open>[[1, 2], [3, 4], [5]]\<close>, whose last batch is
  partial, and a consumer asking for four batches receives only these three.
\<close>

theorem batch_count_train_split_partial_and_finite:
  "split_dataset (\<lambda>b m d. ()) 5 False [1,2,3,4,5::int] 2 0 0 100
     = Inr \<lparr> td_train = Unpadded (Finite [[1, 2], [3, 4], [5]]),
             td_validate = Unpadded (Finite []),
             td_test = Unpadded (Finite []),
             steps_per_epoch = 2, valid_steps_per_epoch = 0 \<rparr>
   \<and> pull 4 (Finite [[1, 2], [3, 4], [5::int]]) = [[1, 2], [3, 4], [5]]"
  by code_simp

text \<open>
  C6, amended. \<open>batch_and_prepare\<close> (the element-count pipeline) drops the last
  partial batch of a training split, so every training batch has exactly \<open>batch_size\<close>
  elements, and keeps it for a validation or test split; its training split repeats
  indefinitely, restarting from the first batch. In the batch-count pipeline
  (\<open>split_dataset\<close>) the sequence is batched once with the partial batch kept, and none
  of the three splits repeats: each is a finite block of that batched sequence.
\<close>

theorem batcher_drop_keep_repeat:
  assumes "0 < batch_size"
  shows "batch_and_prepare ds True batch_size
           = Inr (Forever (chunks (nat batch_size) True ds))
       \<and> (\<forall>b \<in> set (chunks (nat batch_size) True ds). int (length b) = batch_size)
       \<and> concat (chunks (nat batch_size) True ds)
           = take (length ds - length ds mod nat batch_size) ds
       \<and> batch_and_prepare ds False batch_size
           = Inr (Forever (chunks (nat batch_size) False ds))
       \<and> concat (chunks (nat batch_size) False ds) = ds
       \<and> (chunks (nat batch_size) True ds \<noteq> [] \<longrightarrow>
            (\<forall>m k. k < m \<longrightarrow>
               length (pull m (Forever (chunks (nat batch_size) True ds))) = m
             \<and> pull m (Forever (chunks (nat batch_size) True ds)) ! k
                 = chunks (nat batch_size) True ds
                     ! (k mod length (chunks (nat batch_size) True ds))))
       \<and> (0 \<le> self_size \<and> 0 \<le> validation_size \<and> 0 \<le> test_size \<longrightarrow>
            (\<exists>st tr va te.
                split_dataset pb self_size False ds batch_size validation_size test_size max_len
                  = Inr st
              \<and> td_train st = Unpadded (Finite tr)
              \<and> td_validate st = Unpadded (Finite va)
              \<and> td_test st = Unpadded (Finite te)
              \<and> va @ te @ tr = chunks (nat batch_size) False ds
              \<and> (\<forall>m. pull m (Finite tr) = take m tr
                    \<and> pull m (Finite va) = take m va
                    \<and> pull m (Finite te) = take m te)))"
proof -
  let ?n = "nat batch_size"
  have n: "0 < ?n" using assms by simp
  have a: "batch_and_prepare ds True batch_size = Inr (Forever (chunks ?n True ds))"
    using assms by (rule batch_and_prepare_pos)
  have b: "\<forall>b \<in> set (chunks ?n True ds). int (length b) = batch_size"
    using assms by (auto dest: chunks_drop_length)
  have c: "concat (chunks ?n True ds) = take (length ds - length ds mod ?n) ds"
    using n by (rule concat_chunks_drop)
  have d: "batch_and_prepare ds False batch_size = Inr (Forever (chunks ?n False ds))"
    using assms by (rule batch_and_prepare_pos)
  have e: "concat (chunks ?n False ds) = ds"
    using n by (rule concat_chunks_keep)
  have f: "chunks ?n True ds \<noteq> [] \<longrightarrow>
            (\<forall>m k. k < m \<longrightarrow>
               length (pull m (Forever (chunks ?n True ds))) = m
             \<and> pull m (Forever (chunks ?n True ds)) ! k
                 = chunks ?n True ds ! (k mod length (chunks ?n True ds)))"
    using length_pull_Forever nth_pull_Forever by blast
  have g: "\<exists>st tr va te.
                split_dataset pb self_size False ds batch_size validation_size test_size max_len
                  = Inr st
              \<and> td_train st = Unpadded (Finite tr)
              \<and> td_validate st = Unpadded (Finite va)
              \<and> td_test st = Unpadded (Finite te)
              \<and> va @ te @ tr = chunks ?n False ds
              \<and> (\<forall>m. pull m (Finite tr) = take m tr
                    \<and> pull m (Finite va) = take m va
                    \<and> pull m (Finite te) = take m te)"
    if h: "0 \<le> self_size \<and> 0 \<le> validation_size \<and> 0 \<le> test_size"
  proof -
    define V where "V = py_int (validation_size * of_int self_size / of_int batch_size)"
    define T where "T = py_int (test_size * of_int self_size / of_int batch_size)"
    have V0: "0 \<le> V" and T0: "0 \<le> T"
      unfolding V_def T_def using assms h by (auto intro!: py_int_nonneg_ge0 ratio_nonneg)
    have VT: "nat (V + T) = nat V + nat T"
      using V0 T0 by (simp add: nat_add_distrib)
    have "\<exists>st. split_dataset pb self_size False ds batch_size validation_size test_size max_len
                  = Inr st
              \<and> td_train st = Unpadded (Finite (drop (nat V + nat T) (chunks ?n False ds)))
              \<and> td_validate st = Unpadded (Finite (take (nat V) (chunks ?n False ds)))
              \<and> td_test st = Unpadded (Finite (take (nat T) (drop (nat V) (chunks ?n False ds))))"
      using V0 T0 VT
      by (simp add: split_dataset_pos [OF assms] Let_def ds_take_def ds_skip_def
            V_def [symmetric] T_def [symmetric])
    moreover have "take (nat V) (chunks ?n False ds)
        @ take (nat T) (drop (nat V) (chunks ?n False ds))
        @ drop (nat V + nat T) (chunks ?n False ds) = chunks ?n False ds"
      by (rule carve_partition)
    ultimately show ?thesis
      by (metis pull.simps(1))
  qed
  show ?thesis
    using a b c d e f g by blast
qed

theorem batcher_drop_keep_repeat_witness:
  "batch_and_prepare [1,2,3,4,5::int] True 2 = Inr (Forever [[1, 2], [3, 4]])
   \<and> batch_and_prepare [1,2,3,4,5::int] False 2 = Inr (Forever [[1, 2], [3, 4], [5]])
   \<and> pull 3 (Forever [[1, 2], [3, 4::int]]) = [[1, 2], [3, 4], [1, 2]]"
proof -
  have c: "chunks (nat 2) True [1,2,3,4,5::int] = [[1, 2], [3, 4]]"
    by code_simp
  have p: "pull 3 (Forever [[1, 2], [3, 4::int]]) = [[1, 2], [3, 4], [1, 2]]"
    by code_simp
  have k: "chunks (nat 2) False [1,2,3,4,5::int] = [[1, 2], [3, 4], [5]]"
    by code_simp
  have pos: "(0::int) < 2" by simp
  note t = batcher_drop_keep_repeat [OF pos, of "[1,2,3,4,5::int]" 5 0 0 "\<lambda>b m d. ()" 100]
  from t have a: "batch_and_prepare [1,2,3,4,5::int] True 2
                    = Inr (Forever (chunks (nat 2) True [1,2,3,4,5]))"
    by blast
  from t have d: "batch_and_prepare [1,2,3,4,5::int] False 2
                    = Inr (Forever (chunks (nat 2) False [1,2,3,4,5]))"
    by blast
  show ?thesis
    unfolding a d c k using p by simp
qed

text \<open>
  C9. \<open>batch_and_prepare\<close> repeats every split, whatever \<open>is_training\<close> is: the
  validation and test splits of \<open>TweetDatasetGenerator\<close> are \<open>Forever\<close> datasets like
  the training split, and a consumer of a non-empty validation or test split receives
  as many batches as it asks for, the batches restarting from the first.
\<close>

theorem generator_validation_and_test_repeat:
  assumes "0 < batch_size"
  shows "batch_and_prepare ds is_training batch_size
           = Inr (Forever (chunks (nat batch_size) is_training ds))
       \<and> (\<exists>train val test.
             split_data self_size x y train_p valid_p test_p batch_size = Inr (train, val, test)
           \<and> generator_init_splits self_size x y train_p valid_p test_p batch_size
               = Inr \<lparr> gen_train = Forever (chunks (nat batch_size) True train),
                       gen_valid = Forever (chunks (nat batch_size) False val),
                       gen_test = Forever (chunks (nat batch_size) False test) \<rparr>)
       \<and> (ds \<noteq> [] \<longrightarrow>
            (\<forall>m k. k < m \<longrightarrow>
               length (pull m (Forever (chunks (nat batch_size) False ds))) = m
             \<and> pull m (Forever (chunks (nat batch_size) False ds)) ! k
                 = chunks (nat batch_size) False ds
                     ! (k mod length (chunks (nat batch_size) False ds))))"
proof -
  let ?n = "nat batch_size"
  have n: "0 < ?n" using assms by simp
  have a: "batch_and_prepare ds is_training batch_size = Inr (Forever (chunks ?n is_training ds))"
    using assms by (rule batch_and_prepare_pos)
  have nz: "batch_size \<noteq> 0" using assms by simp
  have b: "\<exists>train val test.
             split_data self_size x y train_p valid_p test_p batch_size = Inr (train, val, test)
           \<and> generator_init_splits self_size x y train_p valid_p test_p batch_size
               = Inr \<lparr> gen_train = Forever (chunks ?n True train),
                       gen_valid = Forever (chunks ?n False val),
                       gen_test = Forever (chunks ?n False test) \<rparr>"
    using nz
    by (simp add: generator_init_splits_def split_data_def Let_def
          batch_and_prepare_pos [OF assms])
  have c: "ds \<noteq> [] \<longrightarrow>
            (\<forall>m k. k < m \<longrightarrow>
               length (pull m (Forever (chunks ?n False ds))) = m
             \<and> pull m (Forever (chunks ?n False ds)) ! k
                 = chunks ?n False ds ! (k mod length (chunks ?n False ds)))"
    using chunks_keep_nonempty [OF n] length_pull_Forever nth_pull_Forever by blast
  show ?thesis
    using a b c by blast
qed

theorem generator_validation_and_test_repeat_witness:
  "generator_init_splits 10 [1,2,3,4,5,6,7,8,9,10,11::int] [0,1,0,1,0,1,0,1,0,1,0::int]
       (1/2) (3/10) (1/5) 2
     = Inr \<lparr> gen_train = Forever [[(1, 0), (2, 1)], [(3, 0), (4, 1)]],
             gen_valid = Forever [[(6, 1), (7, 0)], [(8, 1)]],
             gen_test = Forever [[(9, 0), (10, 1)]] \<rparr>
   \<and> pull 5 (Forever [[(6, 1), (7, 0)], [(8::int, 1::int)]])
       = [[(6, 1), (7, 0)], [(8, 1)], [(6, 1), (7, 0)], [(8, 1)], [(6, 1), (7, 0)]]"
proof -
  have e: "generator_init_splits 10 [1,2,3,4,5,6,7,8,9,10,11::int] [0,1,0,1,0,1,0,1,0,1,0::int]
       (1/2) (3/10) (1/5) 2
     = Inr \<lparr> gen_train = Forever [[(1, 0), (2, 1)], [(3, 0), (4, 1)]],
             gen_valid = Forever [[(6, 1), (7, 0)], [(8, 1)]],
             gen_test = Forever [[(9, 0), (10, 1)]] \<rparr>"
    by code_simp
  have p: "pull 5 (Forever [[(6, 1), (7, 0)], [(8::int, 1::int)]])
       = [[(6, 1), (7, 0)], [(8, 1)], [(6, 1), (7, 0)], [(8, 1)], [(6, 1), (7, 0)]]"
    by code_simp
  have pos: "(0::int) < 2" by simp
  note t = generator_validation_and_test_repeat
      [OF pos, of "[(6, 1), (7, 0), (8::int, 1::int)]" False 10
          "[1,2,3,4,5,6,7,8,9,10,11::int]" "[0,1,0,1,0,1,0,1,0,1,0::int]" "1/2" "3/10" "1/5"]
  note c3 = t [THEN conjunct2, THEN conjunct2, rule_format, of 0 5]
  have "length (pull 5 (Forever (chunks (nat 2) False [(6, 1), (7, 0), (8::int, 1::int)]))) = 5"
    by (rule c3 [THEN conjunct1]) simp_all
  with e p show ?thesis by blast
qed

end
